theory Spec2Isabelle
  imports Main "HOL-Library.AList" "HOL-Library.Sublist"
begin

section \<open>Values the lab controller computes with\<close>

text \<open>
  The controller (\<^verbatim>\<open>lab-controller.py\<close>) keeps every piece of state as the Python value
  that \<^verbatim>\<open>json.load\<close> returned: a session is a \<^verbatim>\<open>dict\<close>, its fields are whatever
  the file held. The model therefore computes on JSON values and writes out where Python
  raises. A \<^verbatim>\<open>dict\<close> is an association list in insertion order (keys distinct, as
  \<^verbatim>\<open>json.load\<close> produces them); numbers are Python \<^verbatim>\<open>int\<close>s. JSON numbers with a
  fraction or an exponent (Python \<^verbatim>\<open>float\<close>, also the \<^verbatim>\<open>NaN\<close> and
  \<^verbatim>\<open>Infinity\<close> that Python's decoder accepts) are not part of the model. A string is the
  list of its characters.
\<close>

datatype json =
    JNull
  | JBool bool
  | JInt int
  | JStr string
  | JList "json list"
  | JDict "(string \<times> json) list"

text \<open>The exceptions that leave a method of the controller uncaught.\<close>

datatype py_exn =
    KeyError
  | TypeError
  | AttributeError
  | IndexError
  | JSONDecodeError
  | OSError
  | UnicodeDecodeError
  | ValueError
  | RecursionError

text \<open>
  A file is represented by what looking it up, opening it and \<^verbatim>\<open>json.load\<close> make of
  it, and the output of a process by what \<^verbatim>\<open>json.loads\<close> makes of it:
  \<^item> \<open>Malformed\<close>: the decoder raises \<^verbatim>\<open>JSONDecodeError(msg, doc, pos)\<close>, of which the
    message, line, column and position are kept;
  \<^item> \<open>Unreadable\<close>: another exception is raised before a value is there, and is kept with
    its message. For a file that is \<^verbatim>\<open>OSError\<close> when the file system refuses the name
    (\<^verbatim>\<open>Path.exists\<close> raises it for a name longer than the file system allows) or the
    file cannot be opened, \<^verbatim>\<open>UnicodeDecodeError\<close> when the file is not UTF-8 text;
    for a file and for output alike, \<^verbatim>\<open>ValueError\<close> when the text holds an integer of
    more digits than the interpreter converts, and \<^verbatim>\<open>RecursionError\<close> when it is
    nested too deeply;
  \<^item> \<open>Wellformed\<close>: a value is returned.
  \<^verbatim>\<open>json.dump\<close> followed by \<^verbatim>\<open>json.load\<close> gives the value back.
\<close>

datatype decode_error = DecodeError string nat nat nat

datatype contents = Malformed decode_error | Unreadable py_exn string | Wellformed json

fun json_load :: "contents \<Rightarrow> py_exn + json" where
  "json_load (Malformed e) = Inl JSONDecodeError"
| "json_load (Unreadable x m) = Inl x"
| "json_load (Wellformed v) = Inr v"

text \<open>Sequencing of steps that may raise: the first exception ends the method.\<close>

fun seq :: "'err + 'a \<Rightarrow> ('a \<Rightarrow> 'err + 'r) \<Rightarrow> 'err + 'r" where
  "seq (Inl e) f = Inl e"
| "seq (Inr x) f = f x"

subsection \<open>Python's operations on these values\<close>

text \<open>\<^verbatim>\<open>d[k]\<close> for a string key.\<close>

fun getitem :: "json \<Rightarrow> string \<Rightarrow> py_exn + json" where
  "getitem (JDict kvs) k = (case map_of kvs k of None \<Rightarrow> Inl KeyError | Some v \<Rightarrow> Inr v)"
| "getitem _ k = Inl TypeError"

text \<open>\<^verbatim>\<open>d[k] = v\<close> for a string key.\<close>

fun setitem :: "json \<Rightarrow> string \<Rightarrow> json \<Rightarrow> py_exn + json" where
  "setitem (JDict kvs) k v = Inr (JDict (AList.update k v kvs))"
| "setitem _ k v = Inl TypeError"

text \<open>\<^verbatim>\<open>d.get(k, default)\<close>: only a \<^verbatim>\<open>dict\<close> has the method.\<close>

fun dict_get :: "json \<Rightarrow> string \<Rightarrow> json \<Rightarrow> py_exn + json" where
  "dict_get (JDict kvs) k d = Inr (case map_of kvs k of None \<Rightarrow> d | Some v \<Rightarrow> v)"
| "dict_get _ k d = Inl AttributeError"

text \<open>
  A value used as a number: \<^verbatim>\<open>bool\<close> is a subclass of \<^verbatim>\<open>int\<close>; arithmetic
  and ordering against an \<^verbatim>\<open>int\<close> raise \<^verbatim>\<open>TypeError\<close> for every other value.
\<close>

fun as_int :: "json \<Rightarrow> py_exn + int" where
  "as_int (JInt i) = Inr i"
| "as_int (JBool b) = Inr (if b then 1 else 0)"
| "as_int _ = Inl TypeError"

text \<open>\<^verbatim>\<open>x + n\<close>, \<^verbatim>\<open>x - n\<close> and \<^verbatim>\<open>x >= n\<close> for an \<^verbatim>\<open>int\<close> n.\<close>

definition add_int :: "json \<Rightarrow> int \<Rightarrow> py_exn + json" where
  "add_int x n = seq (as_int x) (\<lambda>i. Inr (JInt (i + n)))"

definition sub_int :: "json \<Rightarrow> int \<Rightarrow> py_exn + int" where
  "sub_int x n = seq (as_int x) (\<lambda>i. Inr (i - n))"

definition ge_int :: "json \<Rightarrow> int \<Rightarrow> py_exn + bool" where
  "ge_int x n = seq (as_int x) (\<lambda>i. Inr (n \<le> i))"

text \<open>
  \<^verbatim>\<open>k in c\<close> for a string k: list membership by equality, key membership in a
  \<^verbatim>\<open>dict\<close>, substring test in a \<^verbatim>\<open>str\<close>.
\<close>

fun contains :: "json \<Rightarrow> string \<Rightarrow> py_exn + bool" where
  "contains (JList xs) k = Inr (JStr k \<in> set xs)"
| "contains (JDict kvs) k = Inr (k \<in> set (map fst kvs))"
| "contains (JStr s) k = Inr (sublist k s)"
| "contains _ k = Inl TypeError"

text \<open>\<^verbatim>\<open>c.append(x)\<close>: only a \<^verbatim>\<open>list\<close> has the method.\<close>

fun list_append :: "json \<Rightarrow> json \<Rightarrow> py_exn + json" where
  "list_append (JList xs) x = Inr (JList (xs @ [x]))"
| "list_append _ x = Inl AttributeError"

text \<open>\<^verbatim>\<open>len(c)\<close>.\<close>

fun len :: "json \<Rightarrow> py_exn + int" where
  "len (JList xs) = Inr (int (length xs))"
| "len (JDict kvs) = Inr (int (length kvs))"
| "len (JStr s) = Inr (int (length s))"
| "len _ = Inl TypeError"

text \<open>Truth value of a value in a condition.\<close>

fun truthy :: "json \<Rightarrow> bool" where
  "truthy JNull = False"
| "truthy (JBool b) = b"
| "truthy (JInt i) = (i \<noteq> 0)"
| "truthy (JStr s) = (s \<noteq> [])"
| "truthy (JList xs) = (xs \<noteq> [])"
| "truthy (JDict kvs) = (kvs \<noteq> [])"

section \<open>Student sessions\<close>

text \<open>
  The directory \<^verbatim>\<open>Config.STATE_DIR\<close>: a map from file name to file; a name maps to
  nothing when \<^verbatim>\<open>exists()\<close> answers that there is no such file. Writing a file always
  succeeds in the model, whatever the name held before. A method that raises gives the exception only: the process
  ends there, and since the one write of a method is its last step, the files are then as
  they were.
\<close>

type_synonym store = "string \<rightharpoonup> contents"

record StudentSession =
  student_id :: string
  data :: json

definition session_file :: "string \<Rightarrow> string" where
  "session_file sid = sid @ ''.json''"

text \<open>
  \<^verbatim>\<open>StudentSession._load_or_create\<close>; \<open>now\<close> is \<^verbatim>\<open>datetime.now().isoformat()\<close>.
  Every method takes the store and returns it, so that what a method writes is visible in
  its result.
\<close>

definition zero_state :: "string \<Rightarrow> string \<Rightarrow> json" where
  "zero_state sid now = JDict
     [(''student_id'', JStr sid),
      (''created_at'', JStr now),
      (''current_lab'', JNull),
      (''completed_labs'', JList []),
      (''attempts'', JDict []),
      (''score'', JInt 0)]"

definition load_or_create :: "string \<Rightarrow> string \<Rightarrow> store \<Rightarrow> py_exn + json \<times> store" where
  "load_or_create sid now fs =
     (case fs (session_file sid) of
        Some f \<Rightarrow> seq (json_load f) (\<lambda>d. Inr (d, fs))
      | None \<Rightarrow> Inr (zero_state sid now, fs))"

text \<open>\<^verbatim>\<open>StudentSession.__init__\<close>.\<close>

definition StudentSession_init ::
  "string \<Rightarrow> string \<Rightarrow> store \<Rightarrow> py_exn + StudentSession \<times> store" where
  "StudentSession_init sid now fs =
     seq (load_or_create sid now fs) (\<lambda>(d, fs'). Inr (\<lparr>student_id = sid, data = d\<rparr>, fs'))"

text \<open>\<^verbatim>\<open>StudentSession.save\<close>.\<close>

definition save :: "StudentSession \<Rightarrow> store \<Rightarrow> StudentSession \<times> store" where
  "save s fs = (s, fs(session_file (student_id s) \<mapsto> Wellformed (data s)))"

text \<open>
  \<^verbatim>\<open>StudentSession.start_lab\<close>. The right-hand side of the assignment to the attempt
  counter is evaluated before its target.
\<close>

definition start_lab ::
  "string \<Rightarrow> string \<Rightarrow> StudentSession \<Rightarrow> store \<Rightarrow> py_exn + StudentSession \<times> store" where
  "start_lab lab_id now s fs =
     seq (setitem (data s) ''current_lab'' (JStr lab_id)) (\<lambda>d1.
     seq (getitem d1 ''attempts'') (\<lambda>a.
     seq (dict_get a lab_id (JInt 0)) (\<lambda>c.
     seq (add_int c 1) (\<lambda>c'.
     seq (getitem d1 ''attempts'') (\<lambda>a1.
     seq (setitem a1 lab_id c') (\<lambda>a'.
     seq (setitem d1 ''attempts'' a') (\<lambda>d2.
     seq (setitem d2 ''lab_start_time'' (JStr now)) (\<lambda>d3.
     Inr (save (s\<lparr>data := d3\<rparr>) fs)))))))))"

text \<open>\<^verbatim>\<open>StudentSession.complete_lab\<close>.\<close>

definition complete_lab ::
  "string \<Rightarrow> int \<Rightarrow> StudentSession \<Rightarrow> store \<Rightarrow> py_exn + StudentSession \<times> store" where
  "complete_lab lab_id score s fs =
     seq (getitem (data s) ''completed_labs'') (\<lambda>cl.
     seq (contains cl lab_id) (\<lambda>present.
     seq (if \<not> present
          then seq (getitem (data s) ''completed_labs'') (\<lambda>cl1.
               seq (list_append cl1 (JStr lab_id)) (\<lambda>cl'.
               setitem (data s) ''completed_labs'' cl'))
          else Inr (data s)) (\<lambda>d1.
     seq (getitem d1 ''score'') (\<lambda>sc.
     seq (add_int sc score) (\<lambda>sc'.
     seq (setitem d1 ''score'' sc') (\<lambda>d2.
     seq (setitem d2 ''current_lab'' JNull) (\<lambda>d3.
     Inr (save (s\<lparr>data := d3\<rparr>) fs))))))))"

text \<open>\<^verbatim>\<open>StudentSession.get_progress\<close>: the summary as a \<^verbatim>\<open>dict\<close>.\<close>

definition get_progress :: "StudentSession \<Rightarrow> store \<Rightarrow> py_exn + json \<times> store" where
  "get_progress s fs =
     seq (getitem (data s) ''current_lab'') (\<lambda>cur.
     seq (getitem (data s) ''completed_labs'') (\<lambda>cl.
     seq (len cl) (\<lambda>n.
     seq (getitem (data s) ''score'') (\<lambda>sc.
     seq (getitem (data s) ''attempts'') (\<lambda>a.
     Inr (JDict
       [(''student_id'', JStr (student_id s)),
        (''current_lab'', cur),
        (''completed_labs'', JInt n),
        (''total_score'', sc),
        (''attempts'', a)], fs))))))"

section \<open>Lab definitions\<close>

record LabDefinition =
  lab_id :: string
  title :: json
  description :: json
  difficulty :: json
  objectives :: json
  hints :: json
  time_limit :: json
  verification_script :: json

text \<open>\<^verbatim>\<open>LabDefinition.__init__\<close>: seven calls of \<^verbatim>\<open>config.get\<close>, in the source's order.\<close>

definition LabDefinition_init :: "string \<Rightarrow> json \<Rightarrow> py_exn + LabDefinition" where
  "LabDefinition_init lid config =
     seq (dict_get config ''title'' (JStr ''Untitled Lab'')) (\<lambda>t.
     seq (dict_get config ''description'' (JStr [])) (\<lambda>d.
     seq (dict_get config ''difficulty'' (JStr ''beginner'')) (\<lambda>df.
     seq (dict_get config ''objectives'' (JList [])) (\<lambda>os.
     seq (dict_get config ''hints'' (JList [])) (\<lambda>hs.
     seq (dict_get config ''time_limit'' JNull) (\<lambda>tl.
     seq (dict_get config ''verification_script'' JNull) (\<lambda>vs.
     Inr \<lparr>lab_id = lid, title = t, description = d, difficulty = df, objectives = os,
          hints = hs, time_limit = tl, verification_script = vs\<rparr>)))))))"

text \<open>
  The directory \<^verbatim>\<open>Config.LABS_DIR\<close>, by lab identifier: the file \<^verbatim>\<open>lab.json\<close>
  of the lab (nothing when \<^verbatim>\<open>exists()\<close> answers that there is none), and its
  \<^verbatim>\<open>verify.py\<close>. A verification script is represented by what
  \<^verbatim>\<open>subprocess.run\<close> makes of it: the 30 second limit passes
  (\<^verbatim>\<open>TimeoutExpired\<close>), the call raises something else (its message is kept), or the
  process exits with a return code, its standard output (as \<^verbatim>\<open>json.loads\<close> reads it)
  and its standard error. \<open>cmd\<close> is what \<^verbatim>\<open>str\<close> prints for the argument list
  \<^verbatim>\<open>["python3", str(verify_script)]\<close>.
\<close>

datatype run_result = TimedOut | RunError string | Exited int contents string

record script =
  cmd :: string
  run :: run_result

record labs_dir =
  lab_json :: "string \<rightharpoonup> contents"
  verify_py :: "string \<rightharpoonup> script"

text \<open>
  \<^verbatim>\<open>LabDefinition.load\<close>: \<open>None\<close> is the source's \<^verbatim>\<open>None\<close> (after printing that
  the lab was not found).
\<close>

definition LabDefinition_load :: "labs_dir \<Rightarrow> string \<Rightarrow> py_exn + LabDefinition option" where
  "LabDefinition_load labs lid =
     (case lab_json labs lid of
        None \<Rightarrow> Inr None
      | Some f \<Rightarrow>
          seq (json_load f) (\<lambda>config.
          seq (LabDefinition_init lid config) (\<lambda>lab. Inr (Some lab))))"

text \<open>\<^verbatim>\<open>LabDefinition.get_verification_script\<close>.\<close>

definition get_verification_script :: "labs_dir \<Rightarrow> LabDefinition \<Rightarrow> script option" where
  "get_verification_script labs lab = verify_py labs (lab_id lab)"

section \<open>The verification engine\<close>

subsection \<open>Messages of the exceptions the engine catches\<close>

text \<open>
  \<^verbatim>\<open>LabVerifier.verify\<close> catches every exception of its \<^verbatim>\<open>try\<close> block and
  formats it into a feedback string, so the text of these exceptions is part of the result.
  Numbers are printed in decimal.
\<close>

definition digit :: "nat \<Rightarrow> char" where
  "digit d = ''0123456789'' ! d"

fun dec :: "nat \<Rightarrow> string" where
  "dec n = (if n < 10 then [digit n] else dec (n div 10) @ [digit (n mod 10)])"

declare dec.simps [simp del]

definition quote :: string where
  "quote = [CHR 0x27]"

text \<open>
  \<^verbatim>\<open>str\<close> of \<^verbatim>\<open>subprocess.TimeoutExpired(cmd, timeout)\<close> and of
  \<^verbatim>\<open>json.JSONDecodeError\<close>, as the standard library formats them.
\<close>

definition timeout_str :: "string \<Rightarrow> nat \<Rightarrow> string" where
  "timeout_str c t = ''Command '' @ quote @ c @ quote @ '' timed out after '' @ dec t @ '' seconds''"

fun decode_error_str :: "decode_error \<Rightarrow> string" where
  "decode_error_str (DecodeError m l c p) =
     m @ '': line '' @ dec l @ '' column '' @ dec c @ '' (char '' @ dec p @ '')''"

subsection \<open>\<^verbatim>\<open>results.update(verify_data)\<close>\<close>

text \<open>
  \<^verbatim>\<open>dict.update\<close> accepts a \<^verbatim>\<open>dict\<close>, or any iterable of two-element
  sequences, which it inserts one by one until one of them raises; what was inserted before
  stays. The result is the updated entries and the message of the exception, if any
  (messages as CPython up to 3.13 prints them).
\<close>

definition wrong_length :: "nat \<Rightarrow> nat \<Rightarrow> string" where
  "wrong_length i n =
     ''dictionary update sequence element #'' @ dec i @ '' has length '' @ dec n @
     ''; 2 is required''"

definition not_iterable :: "string \<Rightarrow> string" where
  "not_iterable ty = quote @ ty @ quote @ '' object is not iterable''"

definition unhashable :: "string \<Rightarrow> string" where
  "unhashable ty = ''unhashable type: '' @ quote @ ty @ quote"

text \<open>
  Element number \<open>i\<close> of the iterable, read as a key and a value: a two-element list, a
  string of two characters, or a \<^verbatim>\<open>dict\<close> with two keys (iterating it gives its keys).
\<close>

fun as_pair :: "nat \<Rightarrow> json \<Rightarrow> string + json \<times> json" where
  "as_pair i (JList xs) =
     (case xs of [k, v] \<Rightarrow> Inr (k, v) | _ \<Rightarrow> Inl (wrong_length i (length xs)))"
| "as_pair i (JStr s) =
     (case s of [c, d] \<Rightarrow> Inr (JStr [c], JStr [d]) | _ \<Rightarrow> Inl (wrong_length i (length s)))"
| "as_pair i (JDict kvs) =
     (case map fst kvs of [k, k'] \<Rightarrow> Inr (JStr k, JStr k')
      | _ \<Rightarrow> Inl (wrong_length i (length kvs)))"
| "as_pair i _ =
     Inl (''cannot convert dictionary update sequence element #'' @ dec i @ '' to a sequence'')"

text \<open>
  Inserting under a key: a list or a \<^verbatim>\<open>dict\<close> cannot be hashed. An entry under a key
  that is \<^verbatim>\<open>None\<close>, a \<^verbatim>\<open>bool\<close> or an \<^verbatim>\<open>int\<close> is left out of the model:
  the controller reads the results under string keys only.
\<close>

fun set_key :: "(string \<times> json) list \<Rightarrow> json \<Rightarrow> json \<Rightarrow> string + (string \<times> json) list" where
  "set_key r (JStr k) v = Inr (AList.update k v r)"
| "set_key r (JList xs) v = Inl (unhashable ''list'')"
| "set_key r (JDict kvs) v = Inl (unhashable ''dict'')"
| "set_key r _ v = Inr r"

fun update_seq ::
  "(string \<times> json) list \<Rightarrow> nat \<Rightarrow> json list \<Rightarrow> (string \<times> json) list \<times> string option" where
  "update_seq r i [] = (r, None)"
| "update_seq r i (x # xs) =
     (case as_pair i x of
        Inl m \<Rightarrow> (r, Some m)
      | Inr (k, v) \<Rightarrow>
          (case set_key r k v of
             Inl m \<Rightarrow> (r, Some m)
           | Inr r' \<Rightarrow> update_seq r' (Suc i) xs))"

fun dict_update ::
  "(string \<times> json) list \<Rightarrow> json \<Rightarrow> (string \<times> json) list \<times> string option" where
  "dict_update r (JDict kvs) = (fold (\<lambda>(k, v). AList.update k v) kvs r, None)"
| "dict_update r (JList xs) = update_seq r 0 xs"
| "dict_update r (JStr s) = (r, if s = [] then None else Some (wrong_length 0 1))"
| "dict_update r JNull = (r, Some (not_iterable ''NoneType''))"
| "dict_update r (JBool b) = (r, Some (not_iterable ''bool''))"
| "dict_update r (JInt i) = (r, Some (not_iterable ''int''))"

subsection \<open>\<^verbatim>\<open>LabVerifier.verify\<close>\<close>

definition initial_results :: "string \<Rightarrow> string \<Rightarrow> (string \<times> json) list" where
  "initial_results lid now =
     [(''lab_id'', JStr lid),
      (''timestamp'', JStr now),
      (''objectives_met'', JList []),
      (''objectives_failed'', JList []),
      (''score'', JInt 0),
      (''feedback'', JList [])]"

text \<open>\<^verbatim>\<open>results["feedback"].append(m)\<close>.\<close>

definition add_feedback :: "json \<Rightarrow> string \<Rightarrow> py_exn + json" where
  "add_feedback results m =
     seq (getitem results ''feedback'') (\<lambda>fb.
     seq (list_append fb (JStr m)) (\<lambda>fb'.
     setitem results ''feedback'' fb'))"

text \<open>
  The call \<^verbatim>\<open>subprocess.run([...], capture_output=True, text=True, timeout=30)\<close> and
  what the \<^verbatim>\<open>try\<close> block does with it. An exception raised while the handler appends
  its feedback is not caught.
\<close>

definition run_verification :: "(string \<times> json) list \<Rightarrow> script \<Rightarrow> py_exn + json" where
  "run_verification results sc =
     (case run sc of
        TimedOut \<Rightarrow>
          add_feedback (JDict results) (''Verification error: '' @ timeout_str (cmd sc) 30)
      | RunError m \<Rightarrow>
          add_feedback (JDict results) (''Verification error: '' @ m)
      | Exited returncode out err \<Rightarrow>
          if returncode = 0 then
            (case out of
               Malformed e \<Rightarrow>
                 add_feedback (JDict results) (''Verification error: '' @ decode_error_str e)
             | Unreadable x m \<Rightarrow>
                 add_feedback (JDict results) (''Verification error: '' @ m)
             | Wellformed verify_data \<Rightarrow>
                 (case dict_update results verify_data of
                    (r, None) \<Rightarrow> Inr (JDict r)
                  | (r, Some m) \<Rightarrow> add_feedback (JDict r) (''Verification error: '' @ m)))
          else add_feedback (JDict results) (''Verification failed: '' @ err))"

definition verify :: "labs_dir \<Rightarrow> LabDefinition \<Rightarrow> string \<Rightarrow> py_exn + json" where
  "verify labs lab now =
     (let results = initial_results (lab_id lab) now in
      case get_verification_script labs lab of
        Some sc \<Rightarrow> run_verification results sc
      | None \<Rightarrow> add_feedback (JDict results) ''No automated verification available'')"

section \<open>The student's commands\<close>

text \<open>
  \<^verbatim>\<open>c[i]\<close> for an \<^verbatim>\<open>int\<close> i. \<open>position n i\<close> is the place that the index
  \<open>i\<close> denotes in a sequence of \<open>n\<close> elements: a negative index counts from the end,
  and an index outside \<open>-n, \<dots>, n - 1\<close> denotes none.
\<close>

definition position :: "nat \<Rightarrow> int \<Rightarrow> nat option" where
  "position n i =
     (if i < - int n \<or> int n \<le> i then None
      else if i < 0 then Some (nat (int n + i))
      else Some (nat i))"

fun index :: "json \<Rightarrow> int \<Rightarrow> py_exn + json" where
  "index (JList xs) i =
     (case position (length xs) i of None \<Rightarrow> Inl IndexError | Some j \<Rightarrow> Inr (xs ! j))"
| "index (JStr s) i =
     (case position (length s) i of None \<Rightarrow> Inl IndexError | Some j \<Rightarrow> Inr (JStr [s ! j]))"
| "index (JDict kvs) i = Inl KeyError"
| "index _ i = Inl TypeError"


text \<open>
  \<^verbatim>\<open>Config.LABS_DIR / lab_id\<close>, the first step of \<^verbatim>\<open>LabDefinition.load\<close> when a
  command passes it the session's \<^verbatim>\<open>current_lab\<close>: a path is joined with a string only.
\<close>

fun as_path :: "json \<Rightarrow> py_exn + string" where
  "as_path (JStr s) = Inr s"
| "as_path _ = Inl TypeError"

text \<open>
  What a command printed, in place of its text: the messages of \<^verbatim>\<open>cmd_hint\<close> (no
  active lab, no hints, or the number and text of a hint) and of \<^verbatim>\<open>cmd_verify\<close> (no
  active lab, nothing when the lab is not found, or the results followed by the verdict).
\<close>

datatype printed =
    NoActiveLab
  | LabNotFound
  | NoHints
  | Hint int json
  | LabCompleted json
  | NotYet json

text \<open>\<^verbatim>\<open>StudentCLI.cmd_hint\<close>.\<close>

definition cmd_hint ::
  "labs_dir \<Rightarrow> StudentSession \<Rightarrow> store \<Rightarrow> py_exn + printed \<times> StudentSession \<times> store" where
  "cmd_hint labs s fs =
     seq (getitem (data s) ''current_lab'') (\<lambda>cur.
     if \<not> truthy cur then Inr (NoActiveLab, s, fs) else
     seq (as_path cur) (\<lambda>lid.
     seq (LabDefinition_load labs lid) (\<lambda>found.
     case found of
       None \<Rightarrow> Inr (NoHints, s, fs)
     | Some lab \<Rightarrow>
         if \<not> truthy (hints lab) then Inr (NoHints, s, fs) else
         seq (getitem (data s) ''attempts'') (\<lambda>a.
         seq (dict_get a (lab_id lab) (JInt 1)) (\<lambda>attempt.
         seq (sub_int attempt 1) (\<lambda>earlier.
         seq (len (hints lab)) (\<lambda>k.
         let hint_index = min earlier (k - 1) in
         seq (index (hints lab) hint_index) (\<lambda>h.
         Inr (Hint (hint_index + 1) h, s, fs)))))))))"

text \<open>
  \<^verbatim>\<open>StudentCLI.cmd_verify\<close>. The loops that print the objectives and the feedback are
  kept for the exceptions they can raise. \<open>pass_score\<close> is the literal 70 of the source.
\<close>

definition pass_score :: int where
  "pass_score = 70"


section \<open>Reading a session and a result\<close>

text \<open>
  The statements below read a session or a result through its fields: \<open>field d k\<close> is the
  entry of the \<^verbatim>\<open>dict\<close> \<open>d\<close> under \<open>k\<close>, if \<open>d\<close> is a \<^verbatim>\<open>dict\<close> and has one.
\<close>

definition field :: "json \<Rightarrow> string \<Rightarrow> json option" where
  "field d k = (case d of JDict kvs \<Rightarrow> map_of kvs k | _ \<Rightarrow> None)"

definition attempt_count :: "json \<Rightarrow> string \<Rightarrow> int option" where
  "attempt_count d L =
     (case field d ''attempts'' of
        Some (JDict as) \<Rightarrow> (case map_of as L of Some (JInt c) \<Rightarrow> Some c | _ \<Rightarrow> None)
      | _ \<Rightarrow> None)"

definition is_completed :: "json \<Rightarrow> string \<Rightarrow> bool" where
  "is_completed d L =
     (case field d ''completed_labs'' of Some (JList cl) \<Rightarrow> JStr L \<in> set cl | _ \<Rightarrow> False)"

definition total_score :: "json \<Rightarrow> int option" where
  "total_score d = (case field d ''score'' of Some (JInt n) \<Rightarrow> Some n | _ \<Rightarrow> None)"

text \<open>
  A result with no objective met or failed, score 0 and the one feedback entry \<open>m\<close>.
\<close>

definition zero_result :: "json \<Rightarrow> string \<Rightarrow> bool" where
  "zero_result r m =
     (field r ''objectives_met'' = Some (JList []) \<and>
      field r ''objectives_failed'' = Some (JList []) \<and>
      field r ''score'' = Some (JInt 0) \<and>
      field r ''feedback'' = Some (JList [JStr m]))"






text \<open>A new student's session, as \<^verbatim>\<open>StudentSession.__init__\<close> builds it.\<close>

definition new_session :: "string \<Rightarrow> string \<Rightarrow> StudentSession" where
  "new_session sid now = \<lparr>student_id = sid, data = zero_state sid now\<rparr>"

text \<open>
  The invariant of a session whose labs \<open>started\<close> have been started: its completed labs
  are a list; its attempt counters are \<^verbatim>\<open>int\<close>s, at least 1; its score is an
  \<^verbatim>\<open>int\<close>; each started lab has a counter.
\<close>

definition invar :: "string list \<Rightarrow> json \<Rightarrow> bool" where
  "invar started d =
     (\<exists>kvs cl as n.
        d = JDict kvs \<and>
        map_of kvs ''completed_labs'' = Some (JList cl) \<and>
        map_of kvs ''attempts'' = Some (JDict as) \<and>
        map_of kvs ''score'' = Some (JInt n) \<and>
        (\<forall>L v. map_of as L = Some v \<longrightarrow> (\<exists>c. v = JInt c \<and> 1 \<le> c)) \<and>
        set started \<subseteq> dom (map_of as))"

text \<open>Every completed lab has an attempt counter.\<close>

definition covered :: "json \<Rightarrow> bool" where
  "covered d = (\<forall>L. is_completed d L \<longrightarrow> (\<exists>c. attempt_count d L = Some c))"

text \<open>
  From \<open>d\<close> to \<open>d'\<close> no attempt counter is lost or lowered; from \<open>d\<close> to \<open>d'\<close>
  the score is not lowered.
\<close>

definition attempts_grow :: "json \<Rightarrow> json \<Rightarrow> bool" where
  "attempts_grow d d' =
     (\<forall>L c. attempt_count d L = Some c \<longrightarrow> (\<exists>c'. attempt_count d' L = Some c' \<and> c \<le> c'))"

definition score_grows :: "json \<Rightarrow> json \<Rightarrow> bool" where
  "score_grows d d' =
     (\<forall>n. total_score d = Some n \<longrightarrow> (\<exists>n'. total_score d' = Some n' \<and> n \<le> n'))"



text \<open>
  An empty file: \<^verbatim>\<open>json.load\<close> raises
  \<^verbatim>\<open>JSONDecodeError("Expecting value", doc, 0)\<close>, at line 1, column 1.
\<close>

definition empty_file :: contents where
  "empty_file = Malformed (DecodeError ''Expecting value'' 1 1 0)"

text \<open>
  The payload of a run: what the script printed, decoded, when it exited with code 0 and
  its output decodes; none in every other case (no script, time-out, failure to run,
  another exit code, output that the decoder does not turn into a value).
\<close>

definition payload :: "labs_dir \<Rightarrow> LabDefinition \<Rightarrow> json option" where
  "payload labs lab =
     (case verify_py labs (lab_id lab) of
        None \<Rightarrow> None
      | Some sc \<Rightarrow>
          (case run sc of
             Exited returncode (Wellformed v) err \<Rightarrow> if returncode = 0 then Some v else None
           | _ \<Rightarrow> None))"

text \<open>
  A lab as \<^verbatim>\<open>LabDefinition("lab-01", {})\<close> builds it, the command of its verification
  script as \<^verbatim>\<open>str\<close> prints it, and a labs directory in which the script behaves as
  given.
\<close>

definition example_lab :: LabDefinition where
  "example_lab =
     \<lparr>lab_id = ''lab-01'', title = JStr ''Untitled Lab'', description = JStr [],
      difficulty = JStr ''beginner'', objectives = JList [], hints = JList [],
      time_limit = JNull, verification_script = JNull\<rparr>"

definition example_cmd :: string where
  "example_cmd =
     ''['' @ quote @ ''python3'' @ quote @ '', '' @ quote @ ''labs/lab-01/verify.py'' @ quote @ '']''"

definition script_of :: "run_result \<Rightarrow> labs_dir" where
  "script_of r =
     \<lparr>lab_json = Map.empty,
      verify_py = [''lab-01'' \<mapsto> \<lparr>cmd = example_cmd, run = r\<rparr>]\<rparr>"

text \<open>
  A lab with three hints and a session in its fifth attempt at it; a session in its first
  attempt, and a lab whose \<^verbatim>\<open>lab.json\<close> is \<^verbatim>\<open>{}\<close> and whose script exits with
  code 0 printing \<^verbatim>\<open>{"score": v}\<close>, with the result of verifying it at time
  \<open>t2\<close>.
\<close>

definition hints_lab :: labs_dir where
  "hints_lab =
     \<lparr>lab_json = [''lab-01'' \<mapsto> Wellformed (JDict
        [(''title'', JStr ''Basic Network Reconnaissance''),
         (''hints'', JList [JStr ''first hint'', JStr ''second hint'', JStr ''third hint''])])],
      verify_py = Map.empty\<rparr>"

definition fifth_attempt :: StudentSession where
  "fifth_attempt =
     \<lparr>student_id = ''student-01'',
      data = JDict
        [(''student_id'', JStr ''student-01''),
         (''created_at'', JStr ''t0''),
         (''current_lab'', JStr ''lab-01''),
         (''completed_labs'', JList []),
         (''attempts'', JDict [(''lab-01'', JInt 5)]),
         (''score'', JInt 0),
         (''lab_start_time'', JStr ''t5'')]\<rparr>"




section \<open>Properties\<close>

subsection \<open>Basic facts\<close>

lemma seq_eq_Inr: "(seq m f = Inr r) = (\<exists>x. m = Inr x \<and> f x = Inr r)"
  by (cases m) simp_all

lemma field_JDict [simp]: "field (JDict kvs) k = map_of kvs k"
  by (simp add: field_def)

lemma field_SomeD: "field d k = Some v \<Longrightarrow> \<exists>kvs. d = JDict kvs \<and> map_of kvs k = Some v"
  by (cases d) (simp_all add: field_def)

lemma add_int_JInt [simp]: "add_int (JInt i) n = Inr (JInt (i + n))"
  by (simp add: add_int_def)

text \<open>What the two mutating methods return on a session of the expected shape.\<close>

lemma complete_lab_result:
  assumes "data s = JDict kvs"
    and "map_of kvs ''completed_labs'' = Some (JList cl)"
    and "map_of kvs ''score'' = Some (JInt n)"
  shows "complete_lab L v s fs =
     Inr (save (s\<lparr>data := JDict (AList.update ''current_lab'' JNull
            (AList.update ''score'' (JInt (n + v))
              (if JStr L \<in> set cl then kvs
               else AList.update ''completed_labs'' (JList (cl @ [JStr L])) kvs)))\<rparr>) fs)"
  using assms by (simp add: complete_lab_def update_conv')

lemma start_lab_result:
  assumes "data s = JDict kvs"
    and "map_of kvs ''attempts'' = Some (JDict as)"
    and "as_int (case map_of as L of None \<Rightarrow> JInt 0 | Some c \<Rightarrow> c) = Inr c"
  shows "start_lab L now s fs =
     Inr (save (s\<lparr>data := JDict (AList.update ''lab_start_time'' (JStr now)
            (AList.update ''attempts'' (JDict (AList.update L (JInt (c + 1)) as))
              (AList.update ''current_lab'' (JStr L) kvs)))\<rparr>) fs)"
  using assms by (simp add: start_lab_def update_conv' add_int_def)

subsection \<open>Completing a lab\<close>

text \<open>
  Claim C1. For a session whose completed labs are a list and whose score is an
  \<^verbatim>\<open>int\<close>, \<^verbatim>\<open>complete_lab\<close> succeeds, appends the lab to the completed labs only
  if it is not among them, adds the score and clears the active lab; calling it again with
  the same lab and score leaves the completed labs as they are and adds the score once more.
\<close>

theorem complete_lab_twice:
  assumes "field (data s) ''completed_labs'' = Some (JList cl)"
    and "field (data s) ''score'' = Some (JInt n)"
  shows "\<exists>s1 fs1 s2 fs2.
      complete_lab L v s fs = Inr (s1, fs1) \<and>
      field (data s1) ''completed_labs'' =
        Some (JList (if JStr L \<in> set cl then cl else cl @ [JStr L])) \<and>
      field (data s1) ''score'' = Some (JInt (n + v)) \<and>
      field (data s1) ''current_lab'' = Some JNull \<and>
      complete_lab L v s1 fs1 = Inr (s2, fs2) \<and>
      field (data s2) ''completed_labs'' = field (data s1) ''completed_labs'' \<and>
      field (data s2) ''score'' = Some (JInt (n + v + v)) \<and>
      field (data s2) ''current_lab'' = Some JNull"
proof -
  from assms(1) obtain kvs where d: "data s = JDict kvs"
    and c: "map_of kvs ''completed_labs'' = Some (JList cl)"
    by (auto dest: field_SomeD)
  from assms(2) d have n: "map_of kvs ''score'' = Some (JInt n)"
    by simp
  define cl1 where "cl1 = (if JStr L \<in> set cl then cl else cl @ [JStr L])"
  define kvs1 where "kvs1 = AList.update ''current_lab'' JNull
            (AList.update ''score'' (JInt (n + v))
              (if JStr L \<in> set cl then kvs
               else AList.update ''completed_labs'' (JList (cl @ [JStr L])) kvs))"
  define s1 where "s1 = s\<lparr>data := JDict kvs1\<rparr>"
  define fs1 where "fs1 = fs(session_file (student_id s) \<mapsto> Wellformed (JDict kvs1))"
  have r1: "complete_lab L v s fs = Inr (s1, fs1)"
    using complete_lab_result [OF d c n, of L v fs]
    by (simp add: save_def s1_def fs1_def kvs1_def)
  have d1: "data s1 = JDict kvs1"
    by (simp add: s1_def)
  have c1: "map_of kvs1 ''completed_labs'' = Some (JList cl1)"
    using c by (simp add: kvs1_def cl1_def update_conv')
  have n1: "map_of kvs1 ''score'' = Some (JInt (n + v))"
    by (simp add: kvs1_def update_conv')
  have a1: "map_of kvs1 ''current_lab'' = Some JNull"
    by (simp add: kvs1_def update_conv')
  have in1: "JStr L \<in> set cl1"
    by (simp add: cl1_def)
  define kvs2 where "kvs2 = AList.update ''current_lab'' JNull
            (AList.update ''score'' (JInt (n + v + v)) kvs1)"
  define s2 where "s2 = s1\<lparr>data := JDict kvs2\<rparr>"
  define fs2 where "fs2 = fs1(session_file (student_id s1) \<mapsto> Wellformed (JDict kvs2))"
  have r2: "complete_lab L v s1 fs1 = Inr (s2, fs2)"
    using complete_lab_result [OF d1 c1 n1, of L v fs1] in1
    by (simp add: save_def s2_def fs2_def kvs2_def)
  have c2: "map_of kvs2 ''completed_labs'' = Some (JList cl1)"
    using c1 by (simp add: kvs2_def update_conv')
  have n2: "map_of kvs2 ''score'' = Some (JInt (n + v + v))"
    by (simp add: kvs2_def update_conv')
  have a2: "map_of kvs2 ''current_lab'' = Some JNull"
    by (simp add: kvs2_def update_conv')
  show ?thesis
    using r1 r2 c1 n1 a1 c2 n2 a2
    by (simp add: s1_def s2_def cl1_def)
qed

theorem complete_lab_twice_witness:
  "field (data (new_session ''student-01'' ''t0'')) ''completed_labs'' = Some (JList []) \<and>
   field (data (new_session ''student-01'' ''t0'')) ''score'' = Some (JInt 0) \<and>
   (\<exists>s1 fs1 s2 fs2.
      complete_lab ''lab-01'' 85 (new_session ''student-01'' ''t0'') Map.empty = Inr (s1, fs1) \<and>
      field (data s1) ''completed_labs'' = Some (JList [JStr ''lab-01'']) \<and>
      field (data s1) ''score'' = Some (JInt 85) \<and>
      field (data s1) ''current_lab'' = Some JNull \<and>
      complete_lab ''lab-01'' 85 s1 fs1 = Inr (s2, fs2) \<and>
      field (data s2) ''completed_labs'' = Some (JList [JStr ''lab-01'']) \<and>
      field (data s2) ''score'' = Some (JInt 170) \<and>
      field (data s2) ''current_lab'' = Some JNull)"
proof -
  have h1: "field (data (new_session ''student-01'' ''t0'')) ''completed_labs'' = Some (JList [])"
    by (simp add: new_session_def zero_state_def)
  have h2: "field (data (new_session ''student-01'' ''t0'')) ''score'' = Some (JInt 0)"
    by (simp add: new_session_def zero_state_def)
  from complete_lab_twice [OF h1 h2, of "''lab-01''" 85 Map.empty]
  obtain s1 fs1 s2 fs2 where
    "complete_lab ''lab-01'' 85 (new_session ''student-01'' ''t0'') Map.empty = Inr (s1, fs1)"
    "field (data s1) ''completed_labs'' = Some (JList [JStr ''lab-01''])"
    "field (data s1) ''score'' = Some (JInt 85)"
    "field (data s1) ''current_lab'' = Some JNull"
    "complete_lab ''lab-01'' 85 s1 fs1 = Inr (s2, fs2)"
    "field (data s2) ''completed_labs'' = field (data s1) ''completed_labs''"
    "field (data s2) ''score'' = Some (JInt 170)"
    "field (data s2) ''current_lab'' = Some JNull"
    by auto
  with h1 h2 show ?thesis
    by auto
qed

subsection \<open>The invariant of a session\<close>





lemma invar_zero_state: "invar [] (zero_state sid now)"
  by (simp add: invar_def zero_state_def)





lemma invar_start_lab:
  assumes "invar st (data s)"
  shows "\<exists>s'. start_lab L now s fs =
            Inr (s', fs(session_file (student_id s) \<mapsto> Wellformed (data s'))) \<and>
          student_id s' = student_id s \<and>
          invar (L # st) (data s') \<and>
          attempts_grow (data s) (data s') \<and> score_grows (data s) (data s') \<and>
          (covered (data s) \<longrightarrow> covered (data s'))"
proof -
  from assms obtain kvs cl as n where d: "data s = JDict kvs"
    and cl: "map_of kvs ''completed_labs'' = Some (JList cl)"
    and as: "map_of kvs ''attempts'' = Some (JDict as)"
    and n: "map_of kvs ''score'' = Some (JInt n)"
    and cnt: "\<forall>L v. map_of as L = Some v \<longrightarrow> (\<exists>c. v = JInt c \<and> 1 \<le> c)"
    and st: "set st \<subseteq> dom (map_of as)"
    unfolding invar_def by blast
  define c where "c = (case map_of as L of Some (JInt k) \<Rightarrow> k | _ \<Rightarrow> 0)"
  have c: "as_int (case map_of as L of None \<Rightarrow> JInt 0 | Some v \<Rightarrow> v) = Inr c" and c0: "0 \<le> c"
  proof -
    show "as_int (case map_of as L of None \<Rightarrow> JInt 0 | Some v \<Rightarrow> v) = Inr c"
    proof (cases "map_of as L")
      case None
      then show ?thesis by (simp add: c_def)
    next
      case (Some v)
      from cnt [rule_format, OF Some] obtain k where "v = JInt k" by blast
      with Some show ?thesis by (simp add: c_def)
    qed
    show "0 \<le> c"
    proof (cases "map_of as L")
      case None
      then show ?thesis by (simp add: c_def)
    next
      case (Some v)
      from cnt [rule_format, OF Some] obtain k where "v = JInt k" "1 \<le> k" by blast
      with Some show ?thesis by (simp add: c_def)
    qed
  qed
  have cL: "k = c" if "map_of as L = Some (JInt k)" for k
    using that by (simp add: c_def)
  define as' where "as' = AList.update L (JInt (c + 1)) as"
  define kvs' where "kvs' = AList.update ''lab_start_time'' (JStr now)
            (AList.update ''attempts'' (JDict as')
              (AList.update ''current_lab'' (JStr L) kvs))"
  define s' where "s' = s\<lparr>data := JDict kvs'\<rparr>"
  have r: "start_lab L now s fs =
      Inr (s', fs(session_file (student_id s) \<mapsto> Wellformed (data s')))"
    using start_lab_result [OF d as c, of now fs]
    by (simp add: save_def s'_def kvs'_def as'_def)
  have as': "map_of as' = (map_of as)(L \<mapsto> JInt (c + 1))"
    by (simp add: as'_def update_conv')
  have f1: "map_of kvs' ''completed_labs'' = Some (JList cl)"
    using cl by (simp add: kvs'_def update_conv')
  have f2: "map_of kvs' ''attempts'' = Some (JDict as')"
    by (simp add: kvs'_def update_conv')
  have f3: "map_of kvs' ''score'' = Some (JInt n)"
    using n by (simp add: kvs'_def update_conv')
  have i: "invar (L # st) (data s')"
    unfolding invar_def
  proof (intro exI conjI)
    show "data s' = JDict kvs'" by (simp add: s'_def)
    show "map_of kvs' ''completed_labs'' = Some (JList cl)" by (rule f1)
    show "map_of kvs' ''attempts'' = Some (JDict as')" by (rule f2)
    show "map_of kvs' ''score'' = Some (JInt n)" by (rule f3)
    show "\<forall>L v. map_of as' L = Some v \<longrightarrow> (\<exists>c. v = JInt c \<and> 1 \<le> c)"
      using cnt c0 by (auto simp: as')
    show "set (L # st) \<subseteq> dom (map_of as')"
      using st by (auto simp: as')
  qed
  have g: "attempts_grow (data s) (data s')"
    unfolding attempts_grow_def
  proof (intro allI impI)
    fix K k assume "attempt_count (data s) K = Some k"
    with d as have k: "map_of as K = Some (JInt k)"
      by (auto simp: attempt_count_def split: option.splits json.splits)
    show "\<exists>c'. attempt_count (data s') K = Some c' \<and> k \<le> c'"
    proof (cases "K = L")
      case True
      with k cL [of k] have "k = c" by simp
      with True show ?thesis
        using f2 by (simp add: attempt_count_def s'_def as')
    next
      case False
      with k show ?thesis
        using f2 by (simp add: attempt_count_def s'_def as')
    qed
  qed
  have h: "score_grows (data s) (data s')"
    using d n f3 by (simp add: score_grows_def total_score_def s'_def)
  have same: "is_completed (data s') K = is_completed (data s) K" for K
    using d cl f1 by (simp add: is_completed_def s'_def)
  have k: "covered (data s')" if "covered (data s)"
    unfolding covered_def
  proof (intro allI impI)
    fix K assume "is_completed (data s') K"
    with same that obtain k where "attempt_count (data s) K = Some k"
      unfolding covered_def by blast
    with g show "\<exists>c. attempt_count (data s') K = Some c"
      unfolding attempts_grow_def by blast
  qed
  from r i g h k show ?thesis
    by (auto simp: s'_def)
qed







subsection \<open>Loading a session, and when it is written\<close>

lemma zero_state_fields:
  "field (zero_state sid now) ''current_lab'' = Some JNull"
  "field (zero_state sid now) ''completed_labs'' = Some (JList [])"
  "field (zero_state sid now) ''attempts'' = Some (JDict [])"
  "field (zero_state sid now) ''score'' = Some (JInt 0)"
  by (simp_all add: zero_state_def)

text \<open>
  Claim C9, as amended. \<^verbatim>\<open>_load_or_create\<close> (and with it the constructor of a
  session) returns the zero state when the lookup finds no file for the student, and
  returns what \<^verbatim>\<open>json.load\<close> gives for the file, whatever its shape, when it gives a
  value. In every other case it raises what was raised on the way:
  \<^verbatim>\<open>JSONDecodeError\<close> when the decoder rejects the text, and otherwise the exception of
  the lookup, of opening or of reading (\<^verbatim>\<open>OSError\<close> for a name the file system
  refuses, \<^verbatim>\<open>UnicodeDecodeError\<close>, \<^verbatim>\<open>ValueError\<close>). So it succeeds exactly
  when there is no file or the file is read to a value. The zero state has no active lab,
  no completed lab, no attempt and score 0.
\<close>

theorem load_or_create_outcome:
  "load_or_create sid now fs =
     (case fs (session_file sid) of
        None \<Rightarrow> Inr (zero_state sid now, fs)
      | Some (Wellformed d) \<Rightarrow> Inr (d, fs)
      | Some (Malformed e) \<Rightarrow> Inl JSONDecodeError
      | Some (Unreadable x m) \<Rightarrow> Inl x) \<and>
   StudentSession_init sid now fs =
     (case fs (session_file sid) of
        None \<Rightarrow> Inr (new_session sid now, fs)
      | Some (Wellformed d) \<Rightarrow> Inr (\<lparr>student_id = sid, data = d\<rparr>, fs)
      | Some (Malformed e) \<Rightarrow> Inl JSONDecodeError
      | Some (Unreadable x m) \<Rightarrow> Inl x) \<and>
   ((\<exists>r. load_or_create sid now fs = Inr r) =
      (fs (session_file sid) = None \<or> (\<exists>d. fs (session_file sid) = Some (Wellformed d)))) \<and>
   field (zero_state sid now) ''current_lab'' = Some JNull \<and>
   field (zero_state sid now) ''completed_labs'' = Some (JList []) \<and>
   field (zero_state sid now) ''attempts'' = Some (JDict []) \<and>
   field (zero_state sid now) ''score'' = Some (JInt 0)"
  by (auto simp: load_or_create_def StudentSession_init_def new_session_def zero_state_fields
      split: option.splits contents.splits)

text \<open>
  Claim C9 as stated fails: the source opens the file and calls \<^verbatim>\<open>json.load\<close> with no
  handler, so a session file that does not decode (here an empty one) makes loading the
  session raise.
\<close>

theorem load_or_create_malformed_counterexample:
  "load_or_create ''student-01'' ''t0'' [session_file ''student-01'' \<mapsto> empty_file] =
     Inl JSONDecodeError \<and>
   StudentSession_init ''student-01'' ''t0'' [session_file ''student-01'' \<mapsto> empty_file] =
     Inl JSONDecodeError"
  by (simp add: load_or_create_def StudentSession_init_def empty_file_def)

text \<open>What each method does to the store, whenever it returns.\<close>

lemma init_reads:
  assumes "StudentSession_init sid now fs = Inr (s, fs')"
  shows "fs' = fs"
  using assms
  by (auto simp: StudentSession_init_def load_or_create_def seq_eq_Inr split: option.splits)

lemma get_progress_reads:
  assumes "get_progress s fs = Inr (p, fs')"
  shows "fs' = fs"
  using assms by (auto simp: get_progress_def seq_eq_Inr)

lemma start_lab_saves:
  assumes "start_lab L t s fs = Inr (s', fs')"
  shows "fs' = fs(session_file (student_id s) \<mapsto> Wellformed (data s'))"
  using assms by (auto simp: start_lab_def save_def seq_eq_Inr)

lemma complete_lab_saves:
  assumes "complete_lab L v s fs = Inr (s', fs')"
  shows "fs' = fs(session_file (student_id s) \<mapsto> Wellformed (data s'))"
  using assms by (auto simp: complete_lab_def save_def seq_eq_Inr split: if_splits)

text \<open>On a new session both mutating methods succeed, and the summary can be read.\<close>

lemma start_lab_new_session:
  "\<exists>s'. start_lab L t (new_session sid now) fs =
     Inr (s', fs(session_file sid \<mapsto> Wellformed (data s')))"
  using invar_start_lab [of "[]" "new_session sid now" L t fs]
  by (auto simp: new_session_def invar_zero_state)

lemma complete_lab_new_session:
  "\<exists>s'. complete_lab L v (new_session sid now) fs =
     Inr (s', fs(session_file sid \<mapsto> Wellformed (data s')))"
  using complete_lab_result [of "new_session sid now" _ "[]" 0 L v fs]
  by (simp add: new_session_def zero_state_def save_def)

lemma get_progress_new_session:
  "\<exists>p. get_progress (new_session sid now) fs = Inr (p, fs)"
  by (simp add: get_progress_def new_session_def zero_state_def)

text \<open>
  Claim C10. Constructing a session and reading its summary return the store as it was;
  \<^verbatim>\<open>start_lab\<close> and \<^verbatim>\<open>complete_lab\<close>, when they return, have written the whole
  record they return to the student's file and nothing else. For a student with no file:
  the constructor gives the zero state and the store still has no file for the student;
  the summary can be read, again with no write; and the first \<^verbatim>\<open>start_lab\<close> or
  \<^verbatim>\<open>complete_lab\<close> succeeds and creates the file.
\<close>

theorem first_write_at_first_mutation:
  "(\<forall>s fs'. StudentSession_init sid now fs = Inr (s, fs') \<longrightarrow> fs' = fs) \<and>
   (\<forall>s p fs'. get_progress s fs = Inr (p, fs') \<longrightarrow> fs' = fs) \<and>
   (\<forall>s s' fs'. start_lab L t s fs = Inr (s', fs') \<longrightarrow>
      fs' = fs(session_file (student_id s) \<mapsto> Wellformed (data s'))) \<and>
   (\<forall>s s' fs'. complete_lab L v s fs = Inr (s', fs') \<longrightarrow>
      fs' = fs(session_file (student_id s) \<mapsto> Wellformed (data s'))) \<and>
   (fs (session_file sid) = None \<longrightarrow>
      StudentSession_init sid now fs = Inr (new_session sid now, fs) \<and>
      (\<exists>p. get_progress (new_session sid now) fs = Inr (p, fs)) \<and>
      (\<exists>s'. start_lab L t (new_session sid now) fs =
         Inr (s', fs(session_file sid \<mapsto> Wellformed (data s')))) \<and>
      (\<exists>s'. complete_lab L v (new_session sid now) fs =
         Inr (s', fs(session_file sid \<mapsto> Wellformed (data s')))))"
proof -
  have "StudentSession_init sid now fs = Inr (new_session sid now, fs)"
    if "fs (session_file sid) = None"
    using that by (simp add: StudentSession_init_def load_or_create_def new_session_def)
  then show ?thesis
    using start_lab_new_session [of L t sid now fs] complete_lab_new_session [of L v sid now fs]
      get_progress_new_session [of sid now fs]
    by (auto dest: init_reads get_progress_reads start_lab_saves complete_lab_saves)
qed

theorem first_write_at_first_mutation_witness:
  "(Map.empty :: store) (session_file ''student-01'') = None \<and>
   StudentSession_init ''student-01'' ''t0'' Map.empty =
     Inr (new_session ''student-01'' ''t0'', Map.empty) \<and>
   (\<exists>p. get_progress (new_session ''student-01'' ''t0'') Map.empty = Inr (p, Map.empty)) \<and>
   (\<exists>s'. start_lab ''lab-01'' ''t1'' (new_session ''student-01'' ''t0'') Map.empty =
      Inr (s', [session_file ''student-01'' \<mapsto> Wellformed (data s')]))"
proof -
  have h: "(Map.empty :: store) (session_file ''student-01'') = None"
    by simp
  from first_write_at_first_mutation
    [where fs = Map.empty and sid = "''student-01''" and now = "''t0''" and L = "''lab-01''"
       and t = "''t1''" and v = 0]
  show ?thesis
    by simp
qed

subsection \<open>Loading a lab definition\<close>

lemma LabDefinition_init_dict:
  "LabDefinition_init lid (JDict kvs) =
     Inr \<lparr>lab_id = lid,
          title = (case map_of kvs ''title'' of None \<Rightarrow> JStr ''Untitled Lab'' | Some v \<Rightarrow> v),
          description = (case map_of kvs ''description'' of None \<Rightarrow> JStr [] | Some v \<Rightarrow> v),
          difficulty = (case map_of kvs ''difficulty'' of None \<Rightarrow> JStr ''beginner'' | Some v \<Rightarrow> v),
          objectives = (case map_of kvs ''objectives'' of None \<Rightarrow> JList [] | Some v \<Rightarrow> v),
          hints = (case map_of kvs ''hints'' of None \<Rightarrow> JList [] | Some v \<Rightarrow> v),
          time_limit = (case map_of kvs ''time_limit'' of None \<Rightarrow> JNull | Some v \<Rightarrow> v),
          verification_script =
            (case map_of kvs ''verification_script'' of None \<Rightarrow> JNull | Some v \<Rightarrow> v)\<rparr>"
  by (simp add: LabDefinition_init_def)

lemma LabDefinition_init_other:
  "\<forall>kvs. config \<noteq> JDict kvs \<Longrightarrow> LabDefinition_init lid config = Inl AttributeError"
  by (cases config) (simp_all add: LabDefinition_init_def)

text \<open>
  Claim C8, as amended. \<^verbatim>\<open>LabDefinition.load\<close> returns \<^verbatim>\<open>None\<close> exactly when the
  lookup finds no \<^verbatim>\<open>lab.json\<close> for the lab; it returns a definition exactly when the
  file is read to a \<^verbatim>\<open>dict\<close>, and then every field of the definition is the file's
  entry or the default. Otherwise it raises: \<^verbatim>\<open>JSONDecodeError\<close> when the decoder
  rejects the text, the exception of the lookup, of opening or of reading when one is
  raised (\<^verbatim>\<open>OSError\<close> for an identifier whose path the file system refuses,
  \<^verbatim>\<open>UnicodeDecodeError\<close>, \<^verbatim>\<open>ValueError\<close>), and \<^verbatim>\<open>AttributeError\<close> when the
  file is read to anything but a \<^verbatim>\<open>dict\<close>. A definition with a field missing is never
  returned.
\<close>

theorem LabDefinition_load_outcome:
  "LabDefinition_load labs lid =
     (case lab_json labs lid of
        None \<Rightarrow> Inr None
      | Some (Malformed e) \<Rightarrow> Inl JSONDecodeError
      | Some (Unreadable x m) \<Rightarrow> Inl x
      | Some (Wellformed (JDict kvs)) \<Rightarrow>
          Inr (Some \<lparr>lab_id = lid,
            title = (case map_of kvs ''title'' of None \<Rightarrow> JStr ''Untitled Lab'' | Some v \<Rightarrow> v),
            description = (case map_of kvs ''description'' of None \<Rightarrow> JStr [] | Some v \<Rightarrow> v),
            difficulty =
              (case map_of kvs ''difficulty'' of None \<Rightarrow> JStr ''beginner'' | Some v \<Rightarrow> v),
            objectives = (case map_of kvs ''objectives'' of None \<Rightarrow> JList [] | Some v \<Rightarrow> v),
            hints = (case map_of kvs ''hints'' of None \<Rightarrow> JList [] | Some v \<Rightarrow> v),
            time_limit = (case map_of kvs ''time_limit'' of None \<Rightarrow> JNull | Some v \<Rightarrow> v),
            verification_script =
              (case map_of kvs ''verification_script'' of None \<Rightarrow> JNull | Some v \<Rightarrow> v)\<rparr>)
      | Some (Wellformed _) \<Rightarrow> Inl AttributeError) \<and>
   ((LabDefinition_load labs lid = Inr None) = (lab_json labs lid = None)) \<and>
   ((\<exists>lab. LabDefinition_load labs lid = Inr (Some lab)) =
      (\<exists>kvs. lab_json labs lid = Some (Wellformed (JDict kvs))))"
proof (cases "lab_json labs lid")
  case None
  then show ?thesis
    by (simp add: LabDefinition_load_def)
next
  case (Some f)
  show ?thesis
  proof (cases f)
    case (Malformed e)
    with Some show ?thesis
      by (simp add: LabDefinition_load_def)
  next
    case (Unreadable x m)
    with Some show ?thesis
      by (simp add: LabDefinition_load_def)
  next
    case (Wellformed config)
    show ?thesis
    proof (cases "\<exists>kvs. config = JDict kvs")
      case True
      then obtain kvs where "config = JDict kvs" ..
      with Some Wellformed show ?thesis
        by (simp add: LabDefinition_load_def LabDefinition_init_dict)
    next
      case False
      then have "LabDefinition_init lid config = Inl AttributeError"
        by (simp add: LabDefinition_init_other)
      with False Some Wellformed show ?thesis
        by (cases config) (simp_all add: LabDefinition_load_def)
    qed
  qed
qed

text \<open>
  Claim C8 as stated fails: \<^verbatim>\<open>load\<close> has a third outcome. A \<^verbatim>\<open>lab.json\<close> that is
  present but empty, or that holds a JSON list, makes it raise; it neither returns a
  definition nor reports that the lab was not found.
\<close>

theorem LabDefinition_load_malformed_counterexample:
  "LabDefinition_load \<lparr>lab_json = [''lab-01'' \<mapsto> empty_file], verify_py = Map.empty\<rparr> ''lab-01'' =
     Inl JSONDecodeError \<and>
   LabDefinition_load \<lparr>lab_json = [''lab-01'' \<mapsto> Wellformed (JList [])], verify_py = Map.empty\<rparr>
     ''lab-01'' = Inl AttributeError"
  by (simp add: LabDefinition_load_def LabDefinition_init_def empty_file_def)

subsection \<open>Results of the verification engine\<close>


lemma add_feedback_initial:
  "add_feedback (JDict (initial_results lid now)) m =
     Inr (JDict
       [(''lab_id'', JStr lid),
        (''timestamp'', JStr now),
        (''objectives_met'', JList []),
        (''objectives_failed'', JList []),
        (''score'', JInt 0),
        (''feedback'', JList [JStr m])])"
  by (simp add: add_feedback_def initial_results_def)

lemma zero_result_initial:
  "add_feedback (JDict (initial_results lid now)) m = Inr r \<Longrightarrow> zero_result r m"
  by (auto simp: add_feedback_initial zero_result_def)

lemma verify_no_script:
  assumes "verify_py labs (lab_id lab) = None"
  shows "verify labs lab now =
     add_feedback (JDict (initial_results (lab_id lab) now)) ''No automated verification available''"
  using assms by (simp add: verify_def get_verification_script_def)

lemma verify_script:
  assumes "verify_py labs (lab_id lab) = Some sc"
  shows "verify labs lab now = run_verification (initial_results (lab_id lab) now) sc"
  using assms by (simp add: verify_def get_verification_script_def)

text \<open>
  Claim C6. For a lab with no \<^verbatim>\<open>verify.py\<close>, \<^verbatim>\<open>verify\<close> returns a result with no
  objective met or failed, score 0 and the one feedback entry that no automated
  verification is available; its score does not reach the pass score.
\<close>

theorem verify_without_script:
  assumes "verify_py labs (lab_id lab) = None"
  shows "\<exists>r. verify labs lab now = Inr r \<and>
     zero_result r ''No automated verification available'' \<and>
     field r ''lab_id'' = Some (JStr (lab_id lab)) \<and>
     field r ''timestamp'' = Some (JStr now) \<and>
     (\<exists>sc. field r ''score'' = Some sc \<and> ge_int sc pass_score = Inr False)"
  using assms
  by (simp add: verify_no_script add_feedback_initial zero_result_def ge_int_def pass_score_def)

theorem verify_without_script_witness:
  "verify_py \<lparr>lab_json = Map.empty, verify_py = Map.empty\<rparr> (lab_id example_lab) = None \<and>
   (\<exists>r. verify \<lparr>lab_json = Map.empty, verify_py = Map.empty\<rparr> example_lab ''t0'' = Inr r \<and>
      zero_result r ''No automated verification available'' \<and>
      field r ''score'' = Some (JInt 0))"
proof -
  have h: "verify_py \<lparr>lab_json = Map.empty, verify_py = Map.empty\<rparr> (lab_id example_lab) = None"
    by simp
  from verify_without_script [OF h, of "''t0''"] h show ?thesis
    by (auto simp: zero_result_def)
qed





lemma map_of_fold_update:
  assumes "distinct (map fst kvs)"
  shows "map_of (fold (\<lambda>(k, v). AList.update k v) kvs r) = map_of r ++ map_of kvs"
  using assms
proof (induction kvs arbitrary: r)
  case Nil
  then show ?case by simp
next
  case (Cons p kvs)
  obtain k v where p: "p = (k, v)" by (cases p)
  from Cons.prems p have k: "k \<notin> fst ` set kvs" and d: "distinct (map fst kvs)"
    by simp_all
  from k have n: "map_of kvs k = None"
    by (simp add: map_of_eq_None_iff)
  have "map_of (fold (\<lambda>(k, v). AList.update k v) (p # kvs) r) =
      map_of (AList.update k v r) ++ map_of kvs"
    using Cons.IH [OF d] p by simp
  also have "\<dots> = (map_of r)(k \<mapsto> v) ++ map_of kvs"
    by (simp add: update_conv')
  also have "\<dots> = map_of r ++ map_of (p # kvs)"
    using n p by (auto simp: map_add_def fun_eq_iff split: option.splits)
  finally show ?case .
qed

lemma verify_score_no_payload:
  assumes "payload labs lab = None"
  shows "\<exists>r. verify labs lab now = Inr r \<and> field r ''score'' = Some (JInt 0)"
proof (cases "verify_py labs (lab_id lab)")
  case None
  then show ?thesis
    by (simp add: verify_no_script add_feedback_initial)
next
  case (Some sc)
  from assms Some have "verify labs lab now =
      Inr (JDict
       [(''lab_id'', JStr (lab_id lab)),
        (''timestamp'', JStr now),
        (''objectives_met'', JList []),
        (''objectives_failed'', JList []),
        (''score'', JInt 0),
        (''feedback'', JList [JStr (
           case run sc of
             TimedOut \<Rightarrow> ''Verification error: '' @ timeout_str (cmd sc) 30
           | RunError m \<Rightarrow> ''Verification error: '' @ m
           | Exited returncode out err \<Rightarrow>
               if returncode = 0 then
                 (case out of Malformed e \<Rightarrow> ''Verification error: '' @ decode_error_str e
                  | Unreadable x m \<Rightarrow> ''Verification error: '' @ m
                  | Wellformed v \<Rightarrow> [])
               else ''Verification failed: '' @ err)])])"
    by (auto simp: verify_script [OF Some] run_verification_def payload_def add_feedback_initial
        split: run_result.splits contents.splits if_splits)
  then show ?thesis
    by simp
qed

lemma verify_score_payload:
  assumes "payload labs lab = Some (JDict kvs)" and "distinct (map fst kvs)"
  shows "\<exists>r. verify labs lab now = Inr r \<and>
     field r ''score'' = Some (case map_of kvs ''score'' of None \<Rightarrow> JInt 0 | Some v \<Rightarrow> v)"
proof -
  from assms(1) obtain sc err where sc: "verify_py labs (lab_id lab) = Some sc"
    and r: "run sc = Exited 0 (Wellformed (JDict kvs)) err"
    by (auto simp: payload_def split: option.splits run_result.splits contents.splits if_splits)
  have "verify labs lab now =
      Inr (JDict (fold (\<lambda>(k, v). AList.update k v) kvs (initial_results (lab_id lab) now)))"
    using r by (simp add: verify_script [OF sc] run_verification_def)
  moreover have "map_of (initial_results (lab_id lab) now) ''score'' = Some (JInt 0)"
    by (simp add: initial_results_def)
  ultimately show ?thesis
    by (simp add: map_of_fold_update [OF assms(2)] map_add_def split: option.splits)
qed

text \<open>
  Claim C7, as amended. A run with no payload gives score 0. A run whose payload is a JSON
  object gives the payload's \<open>score\<close> entry as it is, of whatever type and size, and 0
  when the payload has none: the engine checks no range.
\<close>

theorem verify_score_from_payload:
  "(payload labs lab = None \<longrightarrow>
      (\<exists>r. verify labs lab now = Inr r \<and> field r ''score'' = Some (JInt 0))) \<and>
   (\<forall>kvs. payload labs lab = Some (JDict kvs) \<and> distinct (map fst kvs) \<longrightarrow>
      (\<exists>r. verify labs lab now = Inr r \<and>
         field r ''score'' = Some (case map_of kvs ''score'' of None \<Rightarrow> JInt 0 | Some v \<Rightarrow> v)))"
  using verify_score_no_payload [of labs lab now] verify_score_payload [of labs lab _ now]
  by blast

theorem verify_score_from_payload_witness:
  "payload (script_of TimedOut) example_lab = None \<and>
   (\<exists>r. verify (script_of TimedOut) example_lab ''t0'' = Inr r \<and>
      field r ''score'' = Some (JInt 0)) \<and>
   payload (script_of (Exited 0 (Wellformed (JDict [(''score'', JInt 85)])) [])) example_lab =
     Some (JDict [(''score'', JInt 85)]) \<and>
   distinct (map fst [(''score'', JInt 85)]) \<and>
   (\<exists>r. verify (script_of (Exited 0 (Wellformed (JDict [(''score'', JInt 85)])) [])) example_lab
        ''t0'' = Inr r \<and>
      field r ''score'' = Some (JInt 85))"
proof -
  have h1: "payload (script_of TimedOut) example_lab = None"
    by (simp add: payload_def script_of_def example_lab_def)
  have h2: "payload (script_of (Exited 0 (Wellformed (JDict [(''score'', JInt 85)])) []))
      example_lab = Some (JDict [(''score'', JInt 85)])"
    by (simp add: payload_def script_of_def example_lab_def)
  have h3: "distinct (map fst [(''score'', JInt 85)])"
    by simp
  from verify_score_from_payload [of "script_of TimedOut" example_lab "''t0''"] h1
  have "\<exists>r. verify (script_of TimedOut) example_lab ''t0'' = Inr r \<and>
      field r ''score'' = Some (JInt 0)"
    by blast
  moreover
  from verify_score_from_payload
    [of "script_of (Exited 0 (Wellformed (JDict [(''score'', JInt 85)])) [])" example_lab "''t0''"]
    h2 h3
  have "\<exists>r. verify (script_of (Exited 0 (Wellformed (JDict [(''score'', JInt 85)])) [])) example_lab
        ''t0'' = Inr r \<and>
      field r ''score'' = Some (JInt 85)"
    by fastforce
  ultimately show ?thesis
    using h1 h2 h3 by blast
qed

text \<open>
  Claim C7 as stated fails: a script that exits with code 0 and prints
  \<^verbatim>\<open>{"score": 150}\<close> gives a result with score 150.
\<close>

theorem verify_score_out_of_range_counterexample:
  "verify (script_of (Exited 0 (Wellformed (JDict [(''score'', JInt 150)])) [])) example_lab ''t0'' =
     Inr (JDict
       [(''lab_id'', JStr ''lab-01''),
        (''timestamp'', JStr ''t0''),
        (''objectives_met'', JList []),
        (''objectives_failed'', JList []),
        (''score'', JInt 150),
        (''feedback'', JList [])]) \<and>
   \<not> (150 :: int) \<le> 100"
  by (simp add: verify_def get_verification_script_def run_verification_def script_of_def
      example_lab_def initial_results_def)

subsection \<open>Hints\<close>

lemma LabDefinition_load_dict:
  assumes "lab_json labs lid = Some (Wellformed (JDict kvs))"
  shows "\<exists>lab. LabDefinition_load labs lid = Inr (Some lab) \<and> lab_id lab = lid \<and>
     hints lab = (case map_of kvs ''hints'' of None \<Rightarrow> JList [] | Some v \<Rightarrow> v)"
  using assms by (simp add: LabDefinition_load_def LabDefinition_init_dict)


lemma position_in_range: "0 \<le> i \<Longrightarrow> i < int n \<Longrightarrow> position n i = Some (nat i)"
  by (simp add: position_def)

text \<open>
  Claim C4. With an active lab that has the hints \<open>hs\<close>, at least one, and the attempt
  number \<open>n\<close>, at least 1 (the lab's counter, or 1 when it has none), \<^verbatim>\<open>cmd_hint\<close>
  prints the hint at index \<open>min (n - 1) (length hs - 1)\<close>, under the number one higher,
  and changes nothing. The index is within the list, and it is the last one when \<open>n\<close>
  exceeds the number of hints.
\<close>

theorem hint_clamp:
  assumes "field (data s) ''current_lab'' = Some (JStr L)" and "L \<noteq> []"
    and "lab_json labs L = Some (Wellformed (JDict cfg))"
    and "map_of cfg ''hints'' = Some (JList hs)" and "hs \<noteq> []"
    and "field (data s) ''attempts'' = Some (JDict as)"
    and "dict_get (JDict as) L (JInt 1) = Inr (JInt n)" and "1 \<le> n"
  shows "cmd_hint labs s fs =
       Inr (Hint (min (n - 1) (int (length hs) - 1) + 1)
              (hs ! nat (min (n - 1) (int (length hs) - 1))), s, fs) \<and>
     nat (min (n - 1) (int (length hs) - 1)) < length hs \<and>
     (int (length hs) < n \<longrightarrow> min (n - 1) (int (length hs) - 1) = int (length hs) - 1)"
proof -
  let ?i = "min (n - 1) (int (length hs) - 1)"
  from assms(1) obtain kvs where d: "data s = JDict kvs"
    and cur: "map_of kvs ''current_lab'' = Some (JStr L)"
    by (auto dest: field_SomeD)
  from assms(6) d have att: "map_of kvs ''attempts'' = Some (JDict as)"
    by simp
  from LabDefinition_load_dict [OF assms(3)] assms(4) obtain lab where
    lab: "LabDefinition_load labs L = Inr (Some lab)" "lab_id lab = L" "hints lab = JList hs"
    by auto
  from assms(5,8) have i: "0 \<le> ?i" "?i < int (length hs)"
    by (auto simp: min_def)
  then have p: "position (length hs) ?i = Some (nat ?i)"
    by (rule position_in_range)
  have "cmd_hint labs s fs = Inr (Hint (?i + 1) (hs ! nat ?i), s, fs)"
    using d cur att lab assms(2,5,7) p
    by (simp add: cmd_hint_def sub_int_def Let_def del: dict_get.simps)
  moreover from i have "nat ?i < length hs"
    by linarith
  ultimately show ?thesis
    by simp
qed

theorem hint_clamp_witness:
  "field (data fifth_attempt) ''current_lab'' = Some (JStr ''lab-01'') \<and>
   cmd_hint hints_lab fifth_attempt Map.empty =
     Inr (Hint 3 (JStr ''third hint''), fifth_attempt, Map.empty)"
proof -
  have h1: "field (data fifth_attempt) ''current_lab'' = Some (JStr ''lab-01'')"
    by (simp add: fifth_attempt_def)
  have h2: "''lab-01'' \<noteq> []"
    by simp
  have h3: "lab_json hints_lab ''lab-01'' = Some (Wellformed (JDict
        [(''title'', JStr ''Basic Network Reconnaissance''),
         (''hints'', JList [JStr ''first hint'', JStr ''second hint'', JStr ''third hint''])]))"
    by (simp add: hints_lab_def)
  have h4: "map_of [(''title'', JStr ''Basic Network Reconnaissance''),
         (''hints'', JList [JStr ''first hint'', JStr ''second hint'', JStr ''third hint''])]
       ''hints'' = Some (JList [JStr ''first hint'', JStr ''second hint'', JStr ''third hint''])"
    by simp
  have h5: "[JStr ''first hint'', JStr ''second hint'', JStr ''third hint''] \<noteq> []"
    by simp
  have h6: "field (data fifth_attempt) ''attempts'' = Some (JDict [(''lab-01'', JInt 5)])"
    by (simp add: fifth_attempt_def)
  have h7: "dict_get (JDict [(''lab-01'', JInt 5)]) ''lab-01'' (JInt 1) = Inr (JInt 5)"
    by simp
  have h8: "(1 :: int) \<le> 5"
    by simp
  from hint_clamp [OF h1 h2 h3 h4 h5 h6 h7 h8, of Map.empty] h1 show ?thesis
    by simp
qed

subsection \<open>The pass score\<close>





end
